theory Spec2Isabelle
  imports Main "HOL-Library.Word"
begin

unbundle bit_operations_syntax

section \<open>Geometry of Go's image package\<close>

text \<open>
  \<open>image.Point\<close> and \<open>image.Rectangle\<close>, with the methods the repository calls.
  Go's \<open>int\<close> is modelled by \<open>int\<close>: every coordinate below is a pixel coordinate of a
  buffer held in memory, far from the 64-bit limits.
\<close>

datatype point = Point (X: int) (Y: int)

datatype rectangle = Rectangle (Min_pt: point) (Max_pt: point)

definition ZP :: point where
  "ZP = Point 0 0"

definition ZR :: rectangle where
  "ZR = Rectangle (Point 0 0) (Point 0 0)"

definition Point_Add :: "point \<Rightarrow> point \<Rightarrow> point" where
  "Point_Add p q = Point (X p + X q) (Y p + Y q)"

definition Point_Sub :: "point \<Rightarrow> point \<Rightarrow> point" where
  "Point_Sub p q = Point (X p - X q) (Y p - Y q)"

definition Point_In :: "point \<Rightarrow> rectangle \<Rightarrow> bool" where
  "Point_In p r =
     (X (Min_pt r) \<le> X p \<and> X p < X (Max_pt r) \<and> Y (Min_pt r) \<le> Y p \<and> Y p < Y (Max_pt r))"


definition Dx :: "rectangle \<Rightarrow> int" where
  "Dx r = X (Max_pt r) - X (Min_pt r)"

definition Dy :: "rectangle \<Rightarrow> int" where
  "Dy r = Y (Max_pt r) - Y (Min_pt r)"

definition Rectangle_Size :: "rectangle \<Rightarrow> point" where
  "Rectangle_Size r = Point (Dx r) (Dy r)"

definition Rectangle_Add :: "rectangle \<Rightarrow> point \<Rightarrow> rectangle" where
  "Rectangle_Add r p = Rectangle (Point_Add (Min_pt r) p) (Point_Add (Max_pt r) p)"

definition Empty :: "rectangle \<Rightarrow> bool" where
  "Empty r = (X (Min_pt r) \<ge> X (Max_pt r) \<or> Y (Min_pt r) \<ge> Y (Max_pt r))"

text \<open>\<open>Rectangle.Intersect\<close>: the larger minimum and the smaller maximum, and \<open>ZR\<close> when
  nothing is left.\<close>

definition Intersect :: "rectangle \<Rightarrow> rectangle \<Rightarrow> rectangle" where
  "Intersect r s =
     (let r1 = Rectangle
                 (Point (max (X (Min_pt r)) (X (Min_pt s))) (max (Y (Min_pt r)) (Y (Min_pt s))))
                 (Point (min (X (Max_pt r)) (X (Max_pt s))) (min (Y (Max_pt r)) (Y (Max_pt s))))
      in if Empty r1 then ZR else r1)"

section \<open>Pixel buffers\<close>

text \<open>
  \<open>image.RGBA\<close>: the bytes, the distance in bytes between two rows, and the rectangle
  the bytes cover. \<open>PixOffset\<close> is the index of the first byte of a pixel.
\<close>

type_synonym byte = "8 word"

record RGBA =
  Pix :: "byte list"
  Stride :: int
  Bounds :: rectangle

definition PixOffset :: "RGBA \<Rightarrow> int \<Rightarrow> int \<Rightarrow> int" where
  "PixOffset p x y = (y - Y (Min_pt (Bounds p))) * Stride p + (x - X (Min_pt (Bounds p))) * 4"

text \<open>A colour as \<open>Color.RGBA()\<close> returns it: four \<open>uint32\<close>, alpha-premultiplied, each
  meant to be at most \<open>0xffff\<close>.\<close>

type_synonym colour = "32 word \<times> 32 word \<times> 32 word \<times> 32 word"

text \<open>An 8-bit RGBA pixel (\<open>color.RGBA\<close>), and its \<open>RGBA()\<close> method, which repeats each
  byte in the upper half of the 16-bit channel.\<close>

type_synonym texel = "byte \<times> byte \<times> byte \<times> byte"



text \<open>\<open>color.RGBAModel.Convert\<close>, which \<open>RGBA.Set\<close> and the \<open>draw\<close> package apply to a
  colour of any other model: the upper byte of each 16-bit channel.\<close>

definition narrow :: "32 word \<Rightarrow> byte" where
  "narrow w = ucast (drop_bit 8 w)"

definition RGBAModel_Convert :: "colour \<Rightarrow> texel" where
  "RGBAModel_Convert c = (case c of (r, g, b, a) \<Rightarrow> (narrow r, narrow g, narrow b, narrow a))"

text \<open>Reading the four bytes of the \<open>k\<close>-th pixel of a byte sequence; \<open>None\<close> where the
  sequence ends before them (memory the program does not own).\<close>

definition read_texel :: "byte list \<Rightarrow> int \<Rightarrow> texel option" where
  "read_texel bs k =
     (if 0 \<le> k \<and> nat (4 * k + 3) < length bs
      then Some (bs ! nat (4 * k), bs ! nat (4 * k + 1), bs ! nat (4 * k + 2), bs ! nat (4 * k + 3))
      else None)"

text \<open>\<open>RGBA.At\<close> (as \<open>RGBAAt\<close>): the pixel at a point of the rectangle, the zero colour
  outside of it.\<close>

definition RGBAAt :: "RGBA \<Rightarrow> int \<Rightarrow> int \<Rightarrow> texel" where
  "RGBAAt p x y =
     (if \<not> Point_In (Point x y) (Bounds p) then (0, 0, 0, 0)
      else let i = nat (PixOffset p x y)
           in (Pix p ! i, Pix p ! (i + 1), Pix p ! (i + 2), Pix p ! (i + 3)))"

text \<open>
  An \<open>image.Image\<close> is an interface. The program distinguishes one implementation,
  \<open>*image.RGBA\<close>; any other is known by its \<open>Bounds()\<close> and by the colour \<open>At(x, y).RGBA()\<close>.
\<close>

record generic_image =
  g_Bounds :: rectangle
  g_At :: "int \<Rightarrow> int \<Rightarrow> colour"

datatype image = ImageRGBA RGBA | ImageOther generic_image

definition image_Bounds :: "image \<Rightarrow> rectangle" where
  "image_Bounds im = (case im of ImageRGBA p \<Rightarrow> Bounds p | ImageOther g \<Rightarrow> g_Bounds g)"


text \<open>Errors and panics of the program, as values.\<close>

datatype error = UnsupportedStride | Panic

text \<open>\<open>image.NewRGBA\<close>: a zeroed buffer of \<open>4 * w * h\<close> bytes with stride \<open>4 * w\<close>; it
  panics on a rectangle of negative width or height.\<close>

definition NewRGBA :: "rectangle \<Rightarrow> error + RGBA" where
  "NewRGBA r =
     (if Dx r < 0 \<or> Dy r < 0 then Inl Panic
      else Inr \<lparr>Pix = replicate (nat (4 * Dx r * Dy r)) 0, Stride = 4 * Dx r, Bounds = r\<rparr>)"

section \<open>draw.Draw onto an RGBA buffer\<close>


definition clip :: "RGBA \<Rightarrow> rectangle \<Rightarrow> rectangle \<Rightarrow> point \<Rightarrow> rectangle \<times> point" where
  "clip dst r sb sp =
     (let orig = Min_pt r;
          r1 = Intersect r (Bounds dst);
          r2 = Intersect r1 (Rectangle_Add sb (Point_Sub orig sp));
          dx = X (Min_pt r2) - X orig;
          dy = Y (Min_pt r2) - Y orig
      in (r2, Point (X sp + dx) (Y sp + dy)))"

definition byte_pixel :: "RGBA \<Rightarrow> nat \<Rightarrow> int \<times> int \<times> nat" where
  "byte_pixel p k =
     (X (Min_pt (Bounds p)) + (int k mod Stride p) div 4,
      Y (Min_pt (Bounds p)) + int k div Stride p,
      nat ((int k mod Stride p) mod 4))"

definition channel :: "texel \<Rightarrow> nat \<Rightarrow> byte" where
  "channel t c =
     (case t of (r, g, b, a) \<Rightarrow> if c = 0 then r else if c = 1 then g else if c = 2 then b else a)"

definition source_texel :: "image \<Rightarrow> int \<Rightarrow> int \<Rightarrow> texel" where
  "source_texel src x y =
     (case src of
        ImageRGBA p \<Rightarrow> RGBAAt p x y
      | ImageOther g \<Rightarrow> RGBAModel_Convert (g_At g x y))"

definition Draw :: "RGBA \<Rightarrow> rectangle \<Rightarrow> image \<Rightarrow> point \<Rightarrow> RGBA" where
  "Draw dst r src sp =
     (case clip dst r (image_Bounds src) sp of
        (r', sp') \<Rightarrow>
          if Empty r' then dst
          else dst\<lparr>Pix :=
                 map (\<lambda>k. case byte_pixel dst k of
                            (x, y, c) \<Rightarrow>
                              if Point_In (Point x y) r'
                              then channel (source_texel src (x - X (Min_pt r') + X sp')
                                                             (y - Y (Min_pt r') + Y sp')) c
                              else Pix dst ! k)
                     [0..<length (Pix dst)]\<rparr>)"

section \<open>The GPU, as the texture code drives it\<close>

text \<open>
  The OpenGL calls of \<open>texture.go\<close> act on a state outside the program. It is modelled
  by what the calls read and write: the texture names handed out so far, the texture
  objects by name, the active texture unit and the 2D texture bound to each unit. A
  texture object has a size, its sampling parameters and its texels; a texel is \<open>None\<close>
  where OpenGL leaves the content undefined (storage allocated from a nil pointer, or
  read past the end of the bytes passed). Coordinates and sizes reach OpenGL as \<open>int32\<close>;
  the model passes them on unchanged, so it covers textures of fewer than \<open>2^31\<close> pixels a
  side.
\<close>

datatype texparam = TEXTURE_MAG_FILTER | TEXTURE_MIN_FILTER | TEXTURE_WRAP_S | TEXTURE_WRAP_T

datatype texparam_value = LINEAR | CLAMP_TO_EDGE

record gltexture =
  gt_size :: point
  gt_params :: "texparam \<Rightarrow> texparam_value option"
  gt_texels :: "int \<Rightarrow> int \<Rightarrow> texel option"

record glstate =
  gl_names :: nat
  gl_textures :: "32 word \<Rightarrow> gltexture option"
  gl_active :: "32 word"
  gl_bound :: "32 word \<Rightarrow> 32 word"
  gl_error :: bool

definition new_gltexture :: gltexture where
  "new_gltexture = \<lparr>gt_size = Point 0 0, gt_params = (\<lambda>_. None), gt_texels = (\<lambda>_ _. None)\<rparr>"

definition gl_init :: glstate where
  "gl_init = \<lparr>gl_names = 0, gl_textures = (\<lambda>_. None), gl_active = 0, gl_bound = (\<lambda>_. 0),
     gl_error = False\<rparr>"

text \<open>\<open>gl.GenTextures(1, &h)\<close>: a name not handed out before.\<close>

definition GenTextures :: "glstate \<Rightarrow> 32 word \<times> glstate" where
  "GenTextures g = (of_nat (Suc (gl_names g)), g\<lparr>gl_names := Suc (gl_names g)\<rparr>)"

definition ActiveTexture :: "32 word \<Rightarrow> glstate \<Rightarrow> glstate" where
  "ActiveTexture u g = g\<lparr>gl_active := u\<rparr>"

text \<open>\<open>gl.BindTexture(gl.TEXTURE_2D, h)\<close>: binds \<open>h\<close> to the active unit; a name bound
  for the first time gets its texture object.\<close>

definition BindTexture :: "32 word \<Rightarrow> glstate \<Rightarrow> glstate" where
  "BindTexture h g =
     g\<lparr>gl_bound := (gl_bound g)(gl_active g := h),
       gl_textures := (case gl_textures g h of
                         None \<Rightarrow> (gl_textures g)(h := Some new_gltexture)
                       | Some _ \<Rightarrow> gl_textures g)\<rparr>"

definition bound_texture :: "glstate \<Rightarrow> 32 word" where
  "bound_texture g = gl_bound g (gl_active g)"

definition TexParameteri :: "texparam \<Rightarrow> texparam_value \<Rightarrow> glstate \<Rightarrow> glstate" where
  "TexParameteri k v g =
     (case gl_textures g (bound_texture g) of
        None \<Rightarrow> g\<lparr>gl_error := True\<rparr>
      | Some t \<Rightarrow> g\<lparr>gl_textures := (gl_textures g)
                       (bound_texture g := Some (t\<lparr>gt_params := (gt_params t)(k := Some v)\<rparr>))\<rparr>)"

text \<open>\<open>gl.TexImage2D\<close> with format RGBA and type UNSIGNED_BYTE: the bound texture gets a
  new store of \<open>w\<close> by \<open>h\<close> texels, read row after row from the bytes, or undefined when
  the pointer is nil.\<close>

definition TexImage2D :: "int \<Rightarrow> int \<Rightarrow> byte list option \<Rightarrow> glstate \<Rightarrow> glstate" where
  "TexImage2D w h dat g =
     (case gl_textures g (bound_texture g) of
        None \<Rightarrow> g\<lparr>gl_error := True\<rparr>
      | Some t \<Rightarrow>
          if w < 0 \<or> h < 0 then g\<lparr>gl_error := True\<rparr>
          else g\<lparr>gl_textures := (gl_textures g)
                 (bound_texture g := Some (t\<lparr>gt_size := Point w h,
                    gt_texels := (\<lambda>x y. if 0 \<le> x \<and> x < w \<and> 0 \<le> y \<and> y < h
                                   then (case dat of None \<Rightarrow> None
                                         | Some bs \<Rightarrow> read_texel bs (y * w + x))
                                   else None)\<rparr>))\<rparr>)"

text \<open>\<open>gl.TexSubImage2D\<close>: the texels of the bound texture in the rectangle of width \<open>w\<close>
  and height \<open>h\<close> at \<open>(xoff, yoff)\<close> are replaced, row after row, by the bytes; a
  rectangle that leaves the texture is an error that writes nothing.\<close>

definition TexSubImage2D :: "int \<Rightarrow> int \<Rightarrow> int \<Rightarrow> int \<Rightarrow> byte list \<Rightarrow> glstate \<Rightarrow> glstate" where
  "TexSubImage2D xoff yoff w h bs g =
     (case gl_textures g (bound_texture g) of
        None \<Rightarrow> g\<lparr>gl_error := True\<rparr>
      | Some t \<Rightarrow>
          if xoff < 0 \<or> yoff < 0 \<or> w < 0 \<or> h < 0
             \<or> xoff + w > X (gt_size t) \<or> yoff + h > Y (gt_size t)
          then g\<lparr>gl_error := True\<rparr>
          else g\<lparr>gl_textures := (gl_textures g)
                 (bound_texture g := Some (t\<lparr>gt_texels :=
                    (\<lambda>x y. if xoff \<le> x \<and> x < xoff + w \<and> yoff \<le> y \<and> y < yoff + h
                          then read_texel bs ((y - yoff) * w + (x - xoff))
                          else gt_texels t x y)\<rparr>))\<rparr>)"

text \<open>\<open>gl.DeleteTextures(1, &h)\<close>: the object is gone, and a unit it was bound to is
  back to texture 0.\<close>

definition DeleteTextures :: "32 word \<Rightarrow> glstate \<Rightarrow> glstate" where
  "DeleteTextures h g =
     g\<lparr>gl_textures := (gl_textures g)(h := None),
       gl_bound := (\<lambda>u. if gl_bound g u = h then 0 else gl_bound g u)\<rparr>"

text \<open>What the GPU holds for texture \<open>h\<close> at \<open>(x, y)\<close>.\<close>

definition gpu_texel :: "glstate \<Rightarrow> 32 word \<Rightarrow> int \<Rightarrow> int \<Rightarrow> texel option" where
  "gpu_texel g h x y = (case gl_textures g h of None \<Rightarrow> None | Some t \<Rightarrow> gt_texels t x y)"

text \<open>The size of the store the GPU holds for texture \<open>h\<close>.\<close>

definition gpu_size :: "glstate \<Rightarrow> 32 word \<Rightarrow> point option" where
  "gpu_size g h = map_option gt_size (gl_textures g h)"

section \<open>textureImpl (oswin/driver/glos/texture.go)\<close>

text \<open>The struct. \<open>img\<close> is a pointer that may be nil; \<open>fbuff\<close> is the framebuffer
  interface, nil until \<open>ActivateFramebuffer\<close>, known here by an identifier only.\<close>

record textureImpl =
  init :: bool
  handle :: "32 word"
  name :: string
  size_tx :: point
  img :: "RGBA option"
  fbuff :: "nat option"

text \<open>\<open>Image\<close> (\<open>Image_tx\<close>): in both branches the cached buffer (the read-back from the GPU is a todo
  of the source).\<close>

definition Image_tx :: "textureImpl \<Rightarrow> RGBA option" where
  "Image_tx tx =
     (if \<not> init tx then (if img tx = None then None else img tx)
      else img tx)"

definition tx_Bounds :: "textureImpl \<Rightarrow> rectangle" where
  "tx_Bounds tx = Rectangle (Point 0 0) (size_tx tx)"

text \<open>\<open>Activate\<close>: the first call creates the texture object, sets the sampling
  parameters and allocates the store from the cached image, or from nil; a later call
  only binds.\<close>

definition Activate :: "textureImpl \<Rightarrow> glstate \<Rightarrow> int \<Rightarrow> textureImpl \<times> glstate" where
  "Activate tx g texNo =
     (if \<not> init tx then
        (case GenTextures g of (h, g1) \<Rightarrow>
           let g2 = ActiveTexture (word_of_int texNo) g1;
               g3 = BindTexture h g2;
               g4 = TexParameteri TEXTURE_MAG_FILTER LINEAR g3;
               g5 = TexParameteri TEXTURE_MIN_FILTER LINEAR g4;
               g6 = TexParameteri TEXTURE_WRAP_S CLAMP_TO_EDGE g5;
               g7 = TexParameteri TEXTURE_WRAP_T CLAMP_TO_EDGE g6;
               szx = X (size_tx tx);
               szy = Y (size_tx tx);
               g8 = (case img tx of
                       Some p \<Rightarrow> TexImage2D szx szy (Some (Pix p)) g7
                     | None \<Rightarrow> TexImage2D szx szy None g7)
           in (tx\<lparr>handle := h, init := True\<rparr>, g8))
      else (tx, BindTexture (handle tx) (ActiveTexture (word_of_int texNo) g)))"

definition Delete :: "textureImpl \<Rightarrow> glstate \<Rightarrow> textureImpl \<times> glstate" where
  "Delete tx g =
     (if \<not> init tx then (tx, g)
      else (tx\<lparr>init := False\<rparr>, DeleteTextures (handle tx) g))"


text \<open>\<open>rgbaImage\<close>: an \<open>*image.RGBA\<close> is returned as it is; any other image is drawn
  into a new buffer of its bounds, from the source point \<open>(0, 0)\<close>.\<close>

definition rgbaImage :: "image \<Rightarrow> error + RGBA" where
  "rgbaImage im =
     (case im of
        ImageRGBA rgba \<Rightarrow> Inr rgba
      | ImageOther g \<Rightarrow>
          (case NewRGBA (image_Bounds im) of
             Inl e \<Rightarrow> Inl e
           | Inr rgba \<Rightarrow>
               if Stride rgba \<noteq> X (Rectangle_Size (Bounds rgba)) * 4 then Inl UnsupportedStride
               else Inr (Draw rgba (Bounds rgba) im (Point 0 0))))"

definition SetImage :: "textureImpl \<Rightarrow> glstate \<Rightarrow> image \<Rightarrow> textureImpl \<times> glstate \<times> error option" where
  "SetImage tx g im =
     (case rgbaImage im of
        Inl e \<Rightarrow> (tx, g, Some e)
      | Inr rgba \<Rightarrow>
          let tx1 = tx\<lparr>img := Some rgba, size_tx := Rectangle_Size (Bounds rgba)\<rparr>
          in if init tx1
             then (case Delete tx1 g of (tx2, g2) \<Rightarrow>
                     case Activate tx2 g2 0 of (tx3, g3) \<Rightarrow> (tx3, g3, None))
             else (tx1, g, None))"

text \<open>The row loop of \<open>SetSubImage\<close>: row \<open>y\<close> of the destination is uploaded from
  \<open>pix[p:]\<close>, and \<open>p\<close> advances by the stride. The slice expression panics when \<open>p\<close> is
  not an index of \<open>pix\<close> or its length.\<close>

function upload_rows ::
  "int \<Rightarrow> int \<Rightarrow> int \<Rightarrow> int \<Rightarrow> byte list \<Rightarrow> int \<Rightarrow> int \<Rightarrow> glstate \<Rightarrow> glstate \<times> error option" where
  "upload_rows x0 width ymax stride pix y p g =
     (if y < ymax then
        (if p < 0 \<or> int (length pix) < p then (g, Some Panic)
         else upload_rows x0 width ymax stride pix (y + 1) (p + stride)
                (TexSubImage2D x0 y width 1 (drop (nat p) pix) g))
      else (g, None))"
  by pat_completeness auto
termination
  by (relation "measure (\<lambda>(x0, width, ymax, stride, pix, y, p, g). nat (ymax - y))") auto

text \<open>Modelled from the spec: the error hook \<open>gpu.TheGPU.ErrCheck\<close> is not under src;
  after a state-changing call a GPU error is fatal.\<close>

definition ErrCheck :: "glstate \<Rightarrow> error option" where
  "ErrCheck g = (if gl_error g then Some Panic else None)"

definition SetSubImage ::
  "textureImpl \<Rightarrow> glstate \<Rightarrow> point \<Rightarrow> image \<Rightarrow> rectangle \<Rightarrow> textureImpl \<times> glstate \<times> error option" where
  "SetSubImage tx g dp src sr0 =
     (case rgbaImage src of
        Inl e \<Rightarrow> (tx, g, Some e)
      | Inr rgba \<Rightarrow>
          let src2dst = Point_Sub dp (Min_pt sr0);
              sr = Intersect sr0 (Bounds rgba);
              dr = Intersect (Rectangle_Add sr src2dst) (tx_Bounds tx)
          in if Empty dr then (tx, g, None)
             else
               let off = PixOffset rgba (X (Min_pt dr) - X src2dst) (Y (Min_pt dr) - Y src2dst)
               in if off < 0 \<or> int (length (Pix rgba)) < off then (tx, g, Some Panic)
                  else
                    let pix = drop (nat off) (Pix rgba);
                        width = Dx dr
                    in case Activate tx g 0 of
                         (tx1, g1) \<Rightarrow>
                           if width * 4 = Stride rgba
                           then (let g2 = TexSubImage2D (X (Min_pt dr)) (Y (Min_pt dr)) width
                                            (Dy dr) pix g1
                                 in (tx1, g2, ErrCheck g2))
                           else (case upload_rows (X (Min_pt dr)) width (Y (Max_pt dr))
                                        (Stride rgba) pix (Y (Min_pt dr)) 0 g1 of
                                   (g2, e) \<Rightarrow> (tx1, g2, e)))"

section \<open>Concrete textures and images\<close>

text \<open>A texture as the driver creates it, and the buffers of the scenarios below: a 4 by 4
  opaque black image, a 2 by 2 opaque red image, and the left column of a 2 by 2 image as
  \<open>SubImage\<close> returns it (the bytes and the stride of the whole image, the rectangle of
  the column).\<close>

definition new_texture :: textureImpl where
  "new_texture = \<lparr>init = False, handle = 0, name = [], size_tx = Point 0 0, img = None,
     fbuff = None\<rparr>"

definition black4 :: RGBA where
  "black4 = \<lparr>Pix = [0, 0, 0, 255, 0, 0, 0, 255, 0, 0, 0, 255, 0, 0, 0, 255,
                  0, 0, 0, 255, 0, 0, 0, 255, 0, 0, 0, 255, 0, 0, 0, 255,
                  0, 0, 0, 255, 0, 0, 0, 255, 0, 0, 0, 255, 0, 0, 0, 255,
                  0, 0, 0, 255, 0, 0, 0, 255, 0, 0, 0, 255, 0, 0, 0, 255],
     Stride = 16, Bounds = Rectangle (Point 0 0) (Point 4 4)\<rparr>"

definition red2 :: RGBA where
  "red2 = \<lparr>Pix = [255, 0, 0, 255, 255, 0, 0, 255, 255, 0, 0, 255, 255, 0, 0, 255],
     Stride = 8, Bounds = Rectangle (Point 0 0) (Point 2 2)\<rparr>"

definition left_column :: RGBA where
  "left_column = \<lparr>Pix = [1, 1, 1, 255, 2, 2, 2, 255, 3, 3, 3, 255, 4, 4, 4, 255], Stride = 8,
     Bounds = Rectangle (Point 0 0) (Point 1 2)\<rparr>"

text \<open>The black texture, set from its image and resident on the GPU.\<close>

definition black_texture :: "textureImpl \<times> glstate" where
  "black_texture =
     (case SetImage new_texture gl_init (ImageRGBA black4) of (tx, g, e) \<Rightarrow> Activate tx g 0)"




section \<open>Viewport2D\<close>


















section \<open>The change signal of a viewport\<close>







section \<open>Concrete viewports\<close>





section \<open>The window thread and Close (windowImpl)\<close>

text \<open>
  \<open>winLoop\<close> runs in the window's own goroutine: each turn of its loop is one \<open>select\<close>
  over the channels \<open>winClose\<close>, \<open>runQueue\<close> and \<open>publish\<close>. \<open>RunOnWin\<close>, \<open>GoRunOnWin\<close>,
  \<open>Publish\<close> and \<open>Close\<close> are called from other goroutines and begin with a send on one of
  these channels. The interleavings are modelled by a step relation on the state of the
  window: whether the loop is still running, the senders blocked on \<open>runQueue\<close> (each with
  the function it carries, known by a number), the number of senders blocked on
  \<open>publish\<close>, how far the one call of \<open>Close\<close> has come, and the history of what has
  happened.

  Modelled from the spec: the channels are made where the window is created, outside of
  src. They are rendezvous channels (without buffer): \<open>RunOnWin\<close> and \<open>Publish\<close> are
  rendezvous, and the stop signal of \<open>Close\<close> is taken by the window thread before the
  cleanup begins. A send therefore completes in the very step in which \<open>select\<close> takes
  it, and \<open>select\<close> may take any of the sends that are waiting.

  A function taken from \<open>runQueue\<close> is run, and a swap performed, within the same turn of
  the loop; the loop does not come back to its \<open>select\<close> before, so the turn is one step.
\<close>

datatype event =
  CloseCalled | Enqueued nat | PublishRequested | Ran nat | Swapped | LoopStopped |
  TextureDeleted | WindowDestroyed

datatype close_stage = NotCalled | Sending | Cleaning | TexReleased | Destroyed

record winstate =
  loop_running :: bool
  runQueue :: "nat list"
  publish :: nat
  closing :: close_stage
  history :: "event list"

definition win_init :: winstate where
  "win_init = \<lparr>loop_running = True, runQueue = [], publish = 0, closing = NotCalled,
     history = []\<rparr>"

text \<open>The calls arriving from other goroutines: \<open>RunOnWin(f)\<close> and \<open>GoRunOnWin(f)\<close> block on
  their send to \<open>runQueue\<close>, \<open>Publish()\<close> on its send to \<open>publish\<close>, \<open>Close()\<close> on its send to
  \<open>winClose\<close>.\<close>

definition call_RunOnWin :: "nat \<Rightarrow> winstate \<Rightarrow> winstate" where
  "call_RunOnWin f s = s\<lparr>runQueue := runQueue s @ [f], history := history s @ [Enqueued f]\<rparr>"

definition call_Publish :: "winstate \<Rightarrow> winstate" where
  "call_Publish s = s\<lparr>publish := Suc (publish s), history := history s @ [PublishRequested]\<rparr>"

definition call_Close :: "winstate \<Rightarrow> winstate" where
  "call_Close s = s\<lparr>closing := Sending, history := history s @ [CloseCalled]\<rparr>"

text \<open>The three cases of the \<open>select\<close> in \<open>winLoop\<close>.\<close>

definition select_winClose :: "winstate \<Rightarrow> winstate" where
  "select_winClose s =
     s\<lparr>loop_running := False, closing := Cleaning, history := history s @ [LoopStopped]\<rparr>"

definition select_runQueue :: "nat \<Rightarrow> winstate \<Rightarrow> winstate" where
  "select_runQueue f s = s\<lparr>runQueue := remove1 f (runQueue s), history := history s @ [Ran f]\<rparr>"

definition select_publish :: "winstate \<Rightarrow> winstate" where
  "select_publish s = s\<lparr>publish := publish s - 1, history := history s @ [Swapped]\<rparr>"

text \<open>The rest of \<open>Close\<close>, after its send: the cleanup hook and the close event, then the
  release of the window texture, then the destruction of the window.\<close>

definition Close_release :: "winstate \<Rightarrow> winstate" where
  "Close_release s = s\<lparr>closing := TexReleased, history := history s @ [TextureDeleted]\<rparr>"

definition Close_destroy :: "winstate \<Rightarrow> winstate" where
  "Close_destroy s = s\<lparr>closing := Destroyed, history := history s @ [WindowDestroyed]\<rparr>"

inductive winstep :: "winstate \<Rightarrow> winstate \<Rightarrow> bool" where
  RunOnWin: "winstep s (call_RunOnWin f s)"
| Publish: "winstep s (call_Publish s)"
| Close: "closing s = NotCalled \<Longrightarrow> winstep s (call_Close s)"
| take_winClose: "loop_running s \<Longrightarrow> closing s = Sending \<Longrightarrow> winstep s (select_winClose s)"
| take_runQueue: "loop_running s \<Longrightarrow> f \<in> set (runQueue s) \<Longrightarrow> winstep s (select_runQueue f s)"
| take_publish: "loop_running s \<Longrightarrow> 0 < publish s \<Longrightarrow> winstep s (select_publish s)"
| release: "closing s = Cleaning \<Longrightarrow> winstep s (Close_release s)"
| destroy: "closing s = TexReleased \<Longrightarrow> winstep s (Close_destroy s)"

inductive reachable :: "winstate \<Rightarrow> bool" where
  start: "reachable win_init"
| step: "reachable s \<Longrightarrow> winstep s s' \<Longrightarrow> reachable s'"

text \<open>What a history must look like: no function is run and no swap is performed after the
  loop has stopped, and the texture is deleted and the window destroyed only after it
  has.\<close>

fun no_service :: "event list \<Rightarrow> bool" where
  "no_service [] = True"
| "no_service (Ran f # es) = False"
| "no_service (Swapped # es) = False"
| "no_service (e # es) = no_service es"

fun stop_ordered :: "event list \<Rightarrow> bool" where
  "stop_ordered [] = True"
| "stop_ordered (LoopStopped # es) = no_service es"
| "stop_ordered (TextureDeleted # es) = False"
| "stop_ordered (WindowDestroyed # es) = False"
| "stop_ordered (e # es) = stop_ordered es"

text \<open>A history in which the loop has not stopped yet, and the invariant of the window:
  while the loop runs, \<open>Close\<close> has not got past its send and nothing has been released;
  once it has stopped, the history is ordered as above.\<close>

fun pre_stop :: "event list \<Rightarrow> bool" where
  "pre_stop [] = True"
| "pre_stop (LoopStopped # es) = False"
| "pre_stop (TextureDeleted # es) = False"
| "pre_stop (WindowDestroyed # es) = False"
| "pre_stop (e # es) = pre_stop es"

definition win_inv :: "winstate \<Rightarrow> bool" where
  "win_inv s =
     (if loop_running s
      then pre_stop (history s) \<and> (closing s = NotCalled \<or> closing s = Sending)
      else stop_ordered (history s) \<and> \<not> pre_stop (history s) \<and>
           (closing s = Cleaning \<or> closing s = TexReleased \<or> closing s = Destroyed))"

text \<open>A run in which function 7 is handed to \<open>RunOnWin\<close> after \<open>Close\<close> has been called.\<close>

definition racing_run :: winstate where
  "racing_run =
     Close_destroy (Close_release (select_winClose (select_runQueue 7
       (call_RunOnWin 7 (call_Close win_init)))))"

section \<open>What the OpenGL calls change\<close>

lemma gl_ActiveTexture [simp]:
  "bound_texture (ActiveTexture u g) = gl_bound g u"
  "gl_textures (ActiveTexture u g) = gl_textures g"
  by (simp_all add: ActiveTexture_def bound_texture_def)

lemma gl_BindTexture [simp]:
  "bound_texture (BindTexture h g) = h"
  "gl_textures (BindTexture h g) h' =
     (if h' = h then Some (case gl_textures g h of None \<Rightarrow> new_gltexture | Some t \<Rightarrow> t)
      else gl_textures g h')"
  by (simp_all add: BindTexture_def bound_texture_def split: option.splits)

lemma gl_TexParameteri [simp]:
  "bound_texture (TexParameteri k v g) = bound_texture g"
  "gl_textures (TexParameteri k v g) h =
     (if h = bound_texture g
      then map_option (\<lambda>t. t\<lparr>gt_params := (gt_params t)(k := Some v)\<rparr>) (gl_textures g h)
      else gl_textures g h)"
  by (auto simp: TexParameteri_def bound_texture_def split: option.splits)

lemma gl_TexImage2D [simp]:
  "bound_texture (TexImage2D w h d g) = bound_texture g"
  "gl_textures (TexImage2D w h d g) h' =
     (if h' = bound_texture g \<and> 0 \<le> w \<and> 0 \<le> h
      then map_option (\<lambda>t. t\<lparr>gt_size := Point w h,
             gt_texels := (\<lambda>x y. if 0 \<le> x \<and> x < w \<and> 0 \<le> y \<and> y < h
                                   then (case d of None \<Rightarrow> None
                                         | Some bs \<Rightarrow> read_texel bs (y * w + x))
                                   else None)\<rparr>) (gl_textures g h')
      else gl_textures g h')"
  by (auto simp: TexImage2D_def bound_texture_def split: option.splits)

lemma gl_DeleteTextures [simp]:
  "gl_textures (DeleteTextures h g) h' = (if h' = h then None else gl_textures g h')"
  by (simp add: DeleteTextures_def)

lemma gl_TexSubImage2D [simp]:
  "bound_texture (TexSubImage2D xo yo w h bs g) = bound_texture g"
  "gpu_size (TexSubImage2D xo yo w h bs g) h' = gpu_size g h'"
  by (auto simp: TexSubImage2D_def bound_texture_def gpu_size_def split: option.splits)

lemma gpu_ActiveTexture [simp]:
  "gpu_size (ActiveTexture u g) h = gpu_size g h"
  "gpu_texel (ActiveTexture u g) h x y = gpu_texel g h x y"
  "gl_error (ActiveTexture u g) = gl_error g"
  by (simp_all add: ActiveTexture_def gpu_size_def gpu_texel_def)

lemma gpu_BindTexture [simp]:
  "gpu_size (BindTexture h g) h' =
     (if h' = h then Some (case gpu_size g h of None \<Rightarrow> Point 0 0 | Some s \<Rightarrow> s)
      else gpu_size g h')"
  "gpu_texel (BindTexture h g) h' x y = gpu_texel g h' x y"
  "gl_error (BindTexture h g) = gl_error g"
  by (auto simp: BindTexture_def gpu_size_def gpu_texel_def new_gltexture_def split: option.splits)

lemma gl_error_ops [simp]:
  "gl_error (TexParameteri k v g) = (gl_error g \<or> gl_textures g (bound_texture g) = None)"
  "gl_error (TexImage2D w h d g) =
     (gl_error g \<or> gl_textures g (bound_texture g) = None \<or> w < 0 \<or> h < 0)"
  by (auto simp: TexParameteri_def TexImage2D_def split: option.splits)

text \<open>An upload writes the texels of its rectangle, in the bound texture, when the
  rectangle lies in the store; it writes nothing else.\<close>

lemma gpu_texel_TexSubImage2D:
  "gpu_texel (TexSubImage2D xo yo w h bs g) h' x y =
     (if h' = bound_texture g \<and>
         (case gpu_size g h' of None \<Rightarrow> False
          | Some s \<Rightarrow> 0 \<le> xo \<and> 0 \<le> yo \<and> 0 \<le> w \<and> 0 \<le> h \<and> xo + w \<le> X s \<and> yo + h \<le> Y s) \<and>
         xo \<le> x \<and> x < xo + w \<and> yo \<le> y \<and> y < yo + h
      then read_texel bs ((y - yo) * w + (x - xo))
      else gpu_texel g h' x y)"
  by (auto simp: TexSubImage2D_def gpu_texel_def gpu_size_def split: option.splits)

lemma gl_error_TexSubImage2D:
  "gl_error (TexSubImage2D xo yo w h bs g) =
     (gl_error g \<or>
      (case gpu_size g (bound_texture g) of None \<Rightarrow> True
       | Some s \<Rightarrow> \<not> (0 \<le> xo \<and> 0 \<le> yo \<and> 0 \<le> w \<and> 0 \<le> h \<and> xo + w \<le> X s \<and> yo + h \<le> Y s)))"
  by (auto simp: TexSubImage2D_def gpu_size_def split: option.splits)



section \<open>Activation\<close>

lemma Activate_keeps:
  "img (fst (Activate tx g n)) = img tx"
  "size_tx (fst (Activate tx g n)) = size_tx tx"
  "name (fst (Activate tx g n)) = name tx"
  "fbuff (fst (Activate tx g n)) = fbuff tx"
  "init (fst (Activate tx g n))"
  by (auto simp: Activate_def Let_def split: prod.splits)

text \<open>The first activation: the texture gets the next name, that name is bound, no other
  texture object changes, and the new store has the texture's size and the cached image's
  bytes (undefined texels when there is none).\<close>

lemma Activate_first:
  assumes "\<not> init tx"
  shows "handle (fst (Activate tx g n)) = of_nat (Suc (gl_names g))"
    and "bound_texture (snd (Activate tx g n)) = of_nat (Suc (gl_names g))"
    and "h \<noteq> of_nat (Suc (gl_names g)) \<Longrightarrow> gl_textures (snd (Activate tx g n)) h = gl_textures g h"
    and "\<exists>t. gl_textures (snd (Activate tx g n)) (of_nat (Suc (gl_names g))) = Some t \<and>
             (X (size_tx tx) < 0 \<or> Y (size_tx tx) < 0 \<or>
              gt_size t = size_tx tx \<and>
              (\<forall>x y. gt_texels t x y =
                 (if 0 \<le> x \<and> x < X (size_tx tx) \<and> 0 \<le> y \<and> y < Y (size_tx tx)
                  then (case img tx of None \<Rightarrow> None
                        | Some p \<Rightarrow> read_texel (Pix p) (y * X (size_tx tx) + x))
                  else None)))"
  using assms
  by (auto simp: Activate_def GenTextures_def Let_def new_gltexture_def split: option.splits)

lemma Activate_init:
  "init tx \<Longrightarrow> Activate tx g n = (tx, BindTexture (handle tx) (ActiveTexture (word_of_int n) g))"
  by (simp add: Activate_def)



lemma gpu_Activate_first:
  assumes "\<not> init tx" "0 \<le> X (size_tx tx)" "0 \<le> Y (size_tx tx)"
  shows "gpu_size (snd (Activate tx g n)) (of_nat (Suc (gl_names g))) = Some (size_tx tx)"
    and "gpu_texel (snd (Activate tx g n)) (of_nat (Suc (gl_names g))) x y =
           (if 0 \<le> x \<and> x < X (size_tx tx) \<and> 0 \<le> y \<and> y < Y (size_tx tx)
            then (case img tx of None \<Rightarrow> None
                  | Some p \<Rightarrow> read_texel (Pix p) (y * X (size_tx tx) + x))
            else None)"
  using Activate_first(4)[OF assms(1), of g n] assms(2,3)
  by (auto simp: gpu_size_def gpu_texel_def)

lemma gl_error_Activate_first:
  "\<not> init tx \<Longrightarrow>
   gl_error (snd (Activate tx g n)) = (gl_error g \<or> X (size_tx tx) < 0 \<or> Y (size_tx tx) < 0)"
  by (auto simp: Activate_def GenTextures_def Let_def split: option.splits)

section \<open>SetSize\<close>





lemma black_texture_facts:
  "size_tx (fst black_texture) = Point 4 4"
  "init (fst black_texture)"
  "handle (fst black_texture) = 1"
  "img (fst black_texture) = Some black4"
  by (simp_all add: black_texture_def SetImage_def rgbaImage_def new_texture_def Activate_def
        GenTextures_def gl_init_def Let_def black4_def Rectangle_Size_def Dx_def Dy_def
        split: prod.splits)


section \<open>SetSubImage\<close>

lemmas geom_defs = Point_Add_def Point_Sub_def Point_In_def Dx_def Dy_def Rectangle_Size_def
  Rectangle_Add_def Empty_def Intersect_def ZR_def ZP_def

lemma black_texture_eq:
  "black_texture = Activate (new_texture\<lparr>img := Some black4, size_tx := Point 4 4\<rparr>) gl_init 0"
  by (simp add: black_texture_def SetImage_def rgbaImage_def new_texture_def black4_def
      Rectangle_Size_def Dx_def Dy_def)

lemma black_texture_gpu:
  "gpu_size (snd black_texture) 1 = Some (Point 4 4)"
  "gpu_texel (snd black_texture) 1 x y =
     (if 0 \<le> x \<and> x < 4 \<and> 0 \<le> y \<and> y < 4 then read_texel (Pix black4) (y * 4 + x) else None)"
  "gl_error (snd black_texture) = False"
  using gpu_Activate_first[of "new_texture\<lparr>img := Some black4, size_tx := Point 4 4\<rparr>" gl_init 0]
    gl_error_Activate_first[of "new_texture\<lparr>img := Some black4, size_tx := Point 4 4\<rparr>" gl_init 0]
  by (simp_all add: black_texture_eq new_texture_def gl_init_def)

lemma SetSubImage_keeps:
  "img (fst (SetSubImage tx g dp src sr)) = img tx"
  "size_tx (fst (SetSubImage tx g dp src sr)) = size_tx tx"
  "name (fst (SetSubImage tx g dp src sr)) = name tx"
  "fbuff (fst (SetSubImage tx g dp src sr)) = fbuff tx"
  using Activate_keeps[of tx g 0]
  by (auto simp: SetSubImage_def Let_def split: sum.splits prod.splits)

text \<open>
  C10. \<open>SetSubImage\<close> returns the texture with the cached buffer \<open>img\<close> and the size it
  had (and its name and framebuffer); it changes at most the GPU state and, by
  activating, the handle and the \<open>init\<close> flag.
\<close>

theorem SetSubImage_leaves_cache_and_size:
  "img (fst (SetSubImage tx g dp src sr)) = img tx \<and>
   size_tx (fst (SetSubImage tx g dp src sr)) = size_tx tx \<and>
   name (fst (SetSubImage tx g dp src sr)) = name tx \<and>
   fbuff (fst (SetSubImage tx g dp src sr)) = fbuff tx"
  by (simp add: SetSubImage_keeps)

theorem SetSubImage_leaves_cache_and_size_witness:
  "img (fst (SetSubImage (fst black_texture) (snd black_texture) (Point 1 1) (ImageRGBA red2)
      (Bounds red2))) = Some black4 \<and>
   size_tx (fst (SetSubImage (fst black_texture) (snd black_texture) (Point 1 1) (ImageRGBA red2)
      (Bounds red2))) = Point 4 4"
  using SetSubImage_leaves_cache_and_size[of "fst black_texture" "snd black_texture" "Point 1 1"
      "ImageRGBA red2" "Bounds red2"]
  by (simp add: black_texture_facts)

lemma SetSubImage_scenarioA:
  "SetSubImage (fst black_texture) (snd black_texture) (Point 1 1) (ImageRGBA red2)
      (Rectangle (Point 0 0) (Point 2 2)) =
     (fst black_texture,
      TexSubImage2D 1 1 2 2 (Pix red2) (BindTexture 1 (ActiveTexture 0 (snd black_texture))),
      ErrCheck (TexSubImage2D 1 1 2 2 (Pix red2) (BindTexture 1 (ActiveTexture 0 (snd black_texture)))))"
  by (simp add: SetSubImage_def rgbaImage_def geom_defs tx_Bounds_def black_texture_facts red2_def
        Let_def PixOffset_def Activate_init)

text \<open>
  C3. Scenario A on the code: the 4 by 4 black texture, resident on the GPU, receives the
  2 by 2 red image at offset (1, 1). The call succeeds and the GPU holds red at (1, 1), but
  \<open>Image\<close> returns the cached buffer, which is black at (1, 1): the claim's read-back of red
  in rows and columns 1 to 2 fails on the code.
\<close>

theorem Image_stale_after_SetSubImage:
  "(case SetSubImage (fst black_texture) (snd black_texture) (Point 1 1) (ImageRGBA red2)
          (Bounds red2) of
      (tx', g', e) \<Rightarrow>
        e = None \<and>
        gpu_texel g' (handle tx') 1 1 = Some (255, 0, 0, 255) \<and>
        map_option (\<lambda>p. RGBAAt p 1 1) (Image_tx tx') = Some (0, 0, 0, 255))"
proof -
  have b: "Bounds red2 = Rectangle (Point 0 0) (Point 2 2)" by (simp add: red2_def)
  show ?thesis
    unfolding b SetSubImage_scenarioA
    by (simp add: black_texture_facts gpu_texel_TexSubImage2D
        gl_error_TexSubImage2D ErrCheck_def black_texture_gpu Image_tx_def RGBAAt_def
        black4_def red2_def read_texel_def Point_In_def PixOffset_def)
qed

text \<open>
  C4. \<open>SetImage\<close> on an \<open>*image.RGBA\<close> whose stride is not four times its width (the left
  column of a 2 by 2 image): no error is returned, the buffer is stored with stride 8 for
  width 1, and the activation that follows uploads its bytes as if they were packed, so
  the GPU holds at (0, 1) the pixel the image has at (1, 0).
\<close>

theorem SetImage_stores_unpacked_stride:
  "(case SetImage new_texture gl_init (ImageRGBA left_column) of
      (tx, g, e) \<Rightarrow>
        e = None \<and> size_tx tx = Point 1 2 \<and> map_option Stride (img tx) = Some 8 \<and>
        (case Activate tx g 0 of
           (tx', g') \<Rightarrow>
             map_option (\<lambda>p. RGBAAt p 0 1) (img tx') = Some (3, 3, 3, 255) \<and>
             gpu_texel g' (handle tx') 0 1 = Some (2, 2, 2, 255)))"
proof -
  let ?tx = "new_texture\<lparr>img := Some left_column, size_tx := Point 1 2\<rparr>"
  have s: "SetImage new_texture gl_init (ImageRGBA left_column) = (?tx, gl_init, None)"
    by (simp add: SetImage_def rgbaImage_def new_texture_def left_column_def Rectangle_Size_def
        Dx_def Dy_def)
  have ni: "\<not> init ?tx" by (simp add: new_texture_def)
  obtain tx' g' where a: "Activate ?tx gl_init 0 = (tx', g')"
    by (cases "Activate ?tx gl_init 0")
  have h: "handle tx' = 1"
    using Activate_first(1)[OF ni, of gl_init 0] a by (simp add: gl_init_def)
  have g: "gpu_texel g' 1 0 1 = Some (2, 2, 2, 255)"
    using gpu_Activate_first(2)[OF ni, of gl_init 0 0 1] a
    by (simp add: gl_init_def read_texel_def left_column_def)
  have i: "img tx' = Some left_column"
    using Activate_keeps(1)[of ?tx gl_init 0] a by simp
  have p: "RGBAAt left_column 0 1 = (3, 3, 3, 255)"
    by (simp add: RGBAAt_def Point_In_def PixOffset_def left_column_def)
  have st: "Stride left_column = 8"
    by (simp add: left_column_def)
  show ?thesis
    unfolding s using a h g i p st by simp
qed

lemma Draw_Bounds [simp]: "Bounds (Draw dst r src sp) = Bounds dst"
  by (simp add: Draw_def split: prod.splits)

lemma Draw_Stride [simp]: "Stride (Draw dst r src sp) = Stride dst"
  by (simp add: Draw_def split: prod.splits)

lemma Draw_length [simp]: "length (Pix (Draw dst r src sp)) = length (Pix dst)"
  by (simp add: Draw_def split: prod.splits)









section \<open>Reading a pixel after draw.Draw\<close>



lemma channel_simps [simp]:
  "channel (r, g, b, a) 0 = r" "channel (r, g, b, a) (Suc 0) = g"
  "channel (r, g, b, a) 2 = b" "channel (r, g, b, a) 3 = a"
  by (simp_all add: channel_def)


section \<open>SetImage and the image read back\<close>














section \<open>Drawing a child viewport into its parent\<close>





lemma byte_pixel_Draw [simp]: "byte_pixel (Draw dst r src sp) k = byte_pixel dst k"
  by (simp add: byte_pixel_def)

lemma clip_Draw [simp]: "clip (Draw dst r0 src0 sp0) r sb sp = clip dst r sb sp"
  by (simp add: clip_def)











section \<open>The clip stack of Render2D\<close>






section \<open>The classification of a change signal\<close>




section \<open>The window thread stops before Close cleans up\<close>

lemmas win_defs = call_RunOnWin_def call_Publish_def call_Close_def select_winClose_def
  select_runQueue_def select_publish_def Close_release_def Close_destroy_def

lemma no_service_append: "no_service (es @ [e]) = (no_service es \<and> no_service [e])"
  by (induction es rule: no_service.induct) auto

lemma pre_stop_append: "pre_stop (es @ [e]) = (pre_stop es \<and> pre_stop [e])"
  by (induction es rule: pre_stop.induct) auto

lemma pre_stop_ordered: "pre_stop es \<Longrightarrow> stop_ordered es"
  by (induction es rule: pre_stop.induct) auto

lemma pre_stop_then_stop: "pre_stop es \<Longrightarrow> stop_ordered (es @ [LoopStopped])"
  by (induction es rule: pre_stop.induct) auto

lemma stopped_append:
  "\<not> pre_stop es \<Longrightarrow> stop_ordered es \<Longrightarrow> no_service [e] \<Longrightarrow> stop_ordered (es @ [e])"
  by (induction es rule: pre_stop.induct) (auto simp: no_service_append)

text \<open>Every step keeps the invariant: by cases on the step.\<close>

lemma win_inv_step: "winstep s s' \<Longrightarrow> win_inv s \<Longrightarrow> win_inv s'"
proof (induction rule: winstep.induct)
  case (RunOnWin s f)
  then show ?case
    by (auto simp: win_inv_def call_RunOnWin_def pre_stop_append stopped_append split: if_splits)
next
  case (Publish s)
  then show ?case
    by (auto simp: win_inv_def call_Publish_def pre_stop_append stopped_append split: if_splits)
next
  case (Close s)
  then show ?case
    by (auto simp: win_inv_def call_Close_def pre_stop_append split: if_splits)
next
  case (take_winClose s)
  then show ?case
    by (auto simp: win_inv_def select_winClose_def pre_stop_append pre_stop_then_stop)
next
  case (take_runQueue s f)
  then show ?case
    by (auto simp: win_inv_def select_runQueue_def pre_stop_append)
next
  case (take_publish s)
  then show ?case
    by (auto simp: win_inv_def select_publish_def pre_stop_append)
next
  case (release s)
  then show ?case
    by (auto simp: win_inv_def Close_release_def pre_stop_append stopped_append split: if_splits)
next
  case (destroy s)
  then show ?case
    by (auto simp: win_inv_def Close_destroy_def pre_stop_append stopped_append split: if_splits)
qed

lemma reachable_inv: "reachable s \<Longrightarrow> win_inv s"
proof (induction rule: reachable.induct)
  case start
  show ?case by (simp add: win_inv_def win_init_def)
next
  case (step s s')
  then show ?case using win_inv_step by blast
qed

lemma reachable_racing_run: "reachable racing_run"
  unfolding racing_run_def
  apply (rule reachable.step[OF _ winstep.destroy])
   apply (rule reachable.step[OF _ winstep.release])
    apply (rule reachable.step[OF _ winstep.take_winClose])
      apply (rule reachable.step[OF _ winstep.take_runQueue])
        apply (rule reachable.step[OF _ winstep.RunOnWin])
        apply (rule reachable.step[OF _ winstep.Close])
         apply (rule reachable.start)
        apply (simp_all add: win_defs win_init_def)
  done

text \<open>
  C1, as amended. In every state the window can reach: no function has been run and no swap
  performed after the window thread took the stop signal of \<open>Close\<close>, and the texture was
  released and the window destroyed only after it; \<open>Close\<close> is past its send only when the
  loop has stopped; and once the loop has stopped it stays stopped and no further step
  runs a function or performs a swap, so a request still waiting then is never executed.
\<close>

theorem winLoop_serves_nothing_after_stop:
  assumes "reachable s"
  shows "stop_ordered (history s) \<and>
         (closing s = Cleaning \<or> closing s = TexReleased \<or> closing s = Destroyed
            \<longrightarrow> \<not> loop_running s) \<and>
         (\<not> loop_running s \<longrightarrow>
            (\<forall>s'. winstep s s' \<longrightarrow>
               (\<exists>e. history s' = history s @ [e] \<and> no_service [e]) \<and>
               \<not> loop_running s'))"
proof -
  have i: "win_inv s" using assms by (rule reachable_inv)
  have 1: "stop_ordered (history s)"
    using i by (auto simp: win_inv_def pre_stop_ordered split: if_splits)
  have 2: "closing s = Cleaning \<or> closing s = TexReleased \<or> closing s = Destroyed
            \<longrightarrow> \<not> loop_running s"
    using i by (auto simp: win_inv_def split: if_splits)
  have 3: "(\<exists>e. history s' = history s @ [e] \<and> no_service [e]) \<and> \<not> loop_running s'"
    if "\<not> loop_running s" "winstep s s'" for s'
    using that(2,1) by (induction rule: winstep.induct) (auto simp: win_defs)
  show ?thesis using 1 2 3 by blast
qed

theorem winLoop_serves_nothing_after_stop_witness:
  "reachable racing_run \<and> stop_ordered (history racing_run) \<and> \<not> loop_running racing_run"
  using winLoop_serves_nothing_after_stop[OF reachable_racing_run] reachable_racing_run
  by (simp add: racing_run_def win_defs win_init_def)

text \<open>
  C1 as stated fails for a request made while \<open>Close\<close> is in progress: \<open>Close\<close> is called,
  then \<open>RunOnWin\<close> with function 7; both sends wait, the \<open>select\<close> of the window loop takes
  the one on \<open>runQueue\<close> first, and function 7 is run (before the loop stops and before
  anything is released).
\<close>

theorem request_racing_Close_counterexample:
  "reachable racing_run \<and>
   history racing_run =
     [CloseCalled, Enqueued 7, Ran 7, LoopStopped, TextureDeleted, WindowDestroyed]"
  using reachable_racing_run by (simp add: racing_run_def win_defs win_init_def)

end
